theory Spec2Isabelle
  imports Main
begin

section \<open>Documents\<close>

text \<open>
  The three Mongoose schemas (models/Recipe.js, models/Folder.js, models/Comment.js) as
  records. Document identifiers are ObjectIds; the identifiers that arrive in a path or in the
  authenticated request are taken to be ObjectIds in their canonical form, so that the
  comparisons \<^verbatim>\<open>x.toString() !== req.params.id\<close> of the routes are equalities of
  identifiers. The \<^verbatim>\<open>date\<close> field of each schema is left out: only the list queries
  sort by it, and they are not part of this development. Schema numbers are integers here; the
  routes only test them for being non-zero.

  A field that several schemas share (\<^verbatim>\<open>user\<close>, \<^verbatim>\<open>description\<close>,
  \<^verbatim>\<open>name\<close>, \<^verbatim>\<open>text\<close>, \<^verbatim>\<open>likes\<close>) carries the schema's name as a
  prefix; a field the schema does not require is an option.
\<close>

datatype oid = ObjectId nat

record like =
  like_user :: oid

record ingredient =
  ing_name :: string
  ing_quantity :: string
  ing_unit :: "string option"

record instruction =
  ins_step :: int
  ins_text :: string

record recipe =
  recipe_user :: oid
  title :: string
  description :: string
  ingredients :: "ingredient list"
  instructions :: "instruction list"
  cookingTime :: int
  servings :: int
  recipe_image :: "string option"
  tags :: "string list"
  parentRecipe :: "oid option"
  isForked :: bool
  modifications :: "string option"
  recipe_likes :: "like list"

record folder =
  folder_user :: oid
  folder_name :: string
  folder_description :: "string option"
  folder_recipes :: "oid list"
  isPublic :: bool

record comment =
  comment_user :: oid
  comment_recipe :: oid
  comment_text :: string
  comment_name :: "string option"
  comment_avatar :: "string option"
  comment_likes :: "like list"

text \<open>
  Modelled from the spec: the User model (models/User.js) is not among the sources. The routes
  read only \<^verbatim>\<open>name\<close> and \<^verbatim>\<open>avatar\<close> of a user, the "denormalized snapshot of
  the author's name/avatar" that a Comment stores.
\<close>

record user =
  user_name :: string
  user_avatar :: "string option"

section \<open>The store\<close>

text \<open>
  Four collections keyed by \<^verbatim>\<open>_id\<close>. Every write that a route awaits is also appended
  to a journal, so that the order of the writes of one request can be stated.
\<close>

datatype write_op =
    RecipeInsert oid | RecipeUpdate oid | RecipeDelete oid
  | CommentInsert oid | CommentUpdate oid | CommentDelete oid | CommentDeleteMany oid
  | FolderInsert oid | FolderUpdate oid | FolderDelete oid

record db =
  users :: "oid \<rightharpoonup> user"
  recipes :: "oid \<rightharpoonup> recipe"
  folders :: "oid \<rightharpoonup> folder"
  comments :: "oid \<rightharpoonup> comment"
  journal :: "write_op list"

text \<open>
  The validators of models/Recipe.js that \<^verbatim>\<open>save()\<close> runs on the whole document before
  it writes: every \<^verbatim>\<open>required: true\<close> path must be there, and a required string must
  not be empty. The record has every required path; what can fail is an empty title or
  description, an ingredient with an empty name or quantity, an instruction with an empty text.
\<close>

definition valid_ingredient :: "ingredient \<Rightarrow> bool" where
  "valid_ingredient i = (ing_name i \<noteq> [] \<and> ing_quantity i \<noteq> [])"

definition valid_instruction :: "instruction \<Rightarrow> bool" where
  "valid_instruction i = (ins_text i \<noteq> [])"

definition valid_recipe :: "recipe \<Rightarrow> bool" where
  "valid_recipe r =
     (title r \<noteq> [] \<and> description r \<noteq> []
      \<and> list_all valid_ingredient (ingredients r)
      \<and> list_all valid_instruction (instructions r))"

text \<open>\<^verbatim>\<open>new Recipe(..).save()\<close>: validation, then an insert; a document that does not
  pass, or a duplicate \<^verbatim>\<open>_id\<close>, makes it throw.\<close>

definition Recipe_insert :: "oid \<Rightarrow> recipe \<Rightarrow> db \<Rightarrow> db option" where
  "Recipe_insert i r d =
     (if \<not> valid_recipe r then None
      else if recipes d i \<noteq> None then None
      else Some (d\<lparr>recipes := (recipes d)(i \<mapsto> r), journal := journal d @ [RecipeInsert i]\<rparr>))"

text \<open>The update of one stored recipe. \<^verbatim>\<open>findByIdAndUpdate\<close> issues it as it is: it
  runs no validators.\<close>

definition Recipe_save :: "oid \<Rightarrow> recipe \<Rightarrow> db \<Rightarrow> db" where
  "Recipe_save i r d = d\<lparr>recipes := (recipes d)(i \<mapsto> r), journal := journal d @ [RecipeUpdate i]\<rparr>"

text \<open>\<^verbatim>\<open>recipe.save()\<close> on a loaded document: validation, then the update; a document
  that does not pass makes it throw and nothing is written.\<close>

definition Recipe_save_validated :: "oid \<Rightarrow> recipe \<Rightarrow> db \<Rightarrow> db option" where
  "Recipe_save_validated i r d = (if valid_recipe r then Some (Recipe_save i r d) else None)"

text \<open>\<^verbatim>\<open>recipe.deleteOne()\<close>.\<close>

definition Recipe_deleteOne :: "oid \<Rightarrow> db \<Rightarrow> db" where
  "Recipe_deleteOne i d = d\<lparr>recipes := (recipes d)(i := None), journal := journal d @ [RecipeDelete i]\<rparr>"

text \<open>
  Comments and folders enter the store through \<^verbatim>\<open>save()\<close> alone, after the routes have
  checked the one required string of each (\<^verbatim>\<open>text\<close>, \<^verbatim>\<open>name\<close>) to be
  non-empty, and no route empties it afterwards; their saves are the writes themselves. Recipes
  differ: PUT /api/recipes/:id writes through \<^verbatim>\<open>findByIdAndUpdate\<close>, so a stored recipe
  need not pass the validators.
\<close>

definition Comment_insert :: "oid \<Rightarrow> comment \<Rightarrow> db \<Rightarrow> db option" where
  "Comment_insert i c d =
     (if comments d i \<noteq> None then None
      else Some (d\<lparr>comments := (comments d)(i \<mapsto> c), journal := journal d @ [CommentInsert i]\<rparr>))"

definition Comment_save :: "oid \<Rightarrow> comment \<Rightarrow> db \<Rightarrow> db" where
  "Comment_save i c d = d\<lparr>comments := (comments d)(i \<mapsto> c), journal := journal d @ [CommentUpdate i]\<rparr>"

definition Comment_deleteOne :: "oid \<Rightarrow> db \<Rightarrow> db" where
  "Comment_deleteOne i d = d\<lparr>comments := (comments d)(i := None), journal := journal d @ [CommentDelete i]\<rparr>"

text \<open>\<^verbatim>\<open>Comment.deleteMany({ recipe: id })\<close>.\<close>

definition Comment_deleteMany :: "oid \<Rightarrow> db \<Rightarrow> db" where
  "Comment_deleteMany rid d =
     d\<lparr>comments := (\<lambda>k. case comments d k of
                            None \<Rightarrow> None
                          | Some c \<Rightarrow> if comment_recipe c = rid then None else Some c),
        journal := journal d @ [CommentDeleteMany rid]\<rparr>"

definition Folder_insert :: "oid \<Rightarrow> folder \<Rightarrow> db \<Rightarrow> db option" where
  "Folder_insert i f d =
     (if folders d i \<noteq> None then None
      else Some (d\<lparr>folders := (folders d)(i \<mapsto> f), journal := journal d @ [FolderInsert i]\<rparr>))"

definition Folder_save :: "oid \<Rightarrow> folder \<Rightarrow> db \<Rightarrow> db" where
  "Folder_save i f d = d\<lparr>folders := (folders d)(i \<mapsto> f), journal := journal d @ [FolderUpdate i]\<rparr>"

definition Folder_deleteOne :: "oid \<Rightarrow> db \<Rightarrow> db" where
  "Folder_deleteOne i d = d\<lparr>folders := (folders d)(i := None), journal := journal d @ [FolderDelete i]\<rparr>"

section \<open>Requests and responses\<close>

text \<open>
  A response is the status code and the body. \<^verbatim>\<open>res.json(x)\<close> answers 200;
  \<^verbatim>\<open>res.status(n).json({ msg })\<close> is \<open>(n, Msg msg)\<close>; the \<^verbatim>\<open>catch\<close> block of
  every route answers \<open>(500, Send ''Server Error'')\<close>.
\<close>

datatype body =
    Msg string
  | Errors "string list"
  | Send string
  | RecipeDoc oid recipe
  | CommentDoc oid comment
  | PopulatedComment oid comment "(string \<times> string option) option"
  | FolderDoc oid folder
  | Likes "like list"

type_synonym response = "nat \<times> body"

definition server_error :: response where
  "server_error = (500, Send ''Server Error'')"

text \<open>
  The JSON body of a recipe request, one option per key: \<open>None\<close> is a key that is missing.
  The routes test a value with \<^verbatim>\<open>if (v)\<close>: the empty string and the number 0 do not pass,
  every array does.
\<close>

record recipe_body =
  body_title :: "string option"
  body_description :: "string option"
  body_ingredients :: "ingredient list option"
  body_instructions :: "instruction list option"
  body_cookingTime :: "int option"
  body_servings :: "int option"
  body_image :: "string option"
  body_tags :: "string list option"
  body_parentRecipe :: "oid option"
  body_modifications :: "string option"

definition truthy_string :: "string option \<Rightarrow> bool" where
  "truthy_string v = (case v of None \<Rightarrow> False | Some s \<Rightarrow> s \<noteq> [])"

text \<open>The express-validator chains: \<^verbatim>\<open>.not().isEmpty()\<close>, \<^verbatim>\<open>.isArray({ min: 1 })\<close>, \<^verbatim>\<open>.isNumeric()\<close>.\<close>

definition check_notEmpty :: "string option \<Rightarrow> string \<Rightarrow> string list" where
  "check_notEmpty v msg = (if truthy_string v then [] else [msg])"

definition check_isArray_min1 :: "'a list option \<Rightarrow> string \<Rightarrow> string list" where
  "check_isArray_min1 v msg = (case v of Some (x # xs) \<Rightarrow> [] | _ \<Rightarrow> [msg])"

text \<open>\<^verbatim>\<open>isNumeric\<close> tests the number's string: from \<^verbatim>\<open>1e21\<close> on that string has
  an exponent and does not pass.\<close>

definition check_isNumeric :: "int option \<Rightarrow> string \<Rightarrow> string list" where
  "check_isNumeric v msg =
     (case v of
        Some n \<Rightarrow> if \<bar>n\<bar> < 1000000000000000000000 then [] else [msg]
      | None \<Rightarrow> [msg])"

section \<open>routes/recipes.js\<close>

definition validate_recipe :: "recipe_body \<Rightarrow> string list" where
  "validate_recipe b =
     check_notEmpty (body_title b) ''Title is required''
   @ check_notEmpty (body_description b) ''Description is required''
   @ check_isArray_min1 (body_ingredients b) ''At least one ingredient is required''
   @ check_isArray_min1 (body_instructions b) ''At least one instruction is required''
   @ check_isNumeric (body_cookingTime b) ''Cooking time is required''
   @ check_isNumeric (body_servings b) ''Number of servings is required''"

text \<open>
  \<^verbatim>\<open>new Recipe(recipeFields)\<close> of POST /api/recipes before the fork branch: the schema
  defaults fill \<^verbatim>\<open>isForked\<close>, \<^verbatim>\<open>tags\<close> and \<^verbatim>\<open>likes\<close>.
\<close>

definition recipeFields_base ::
  "oid \<Rightarrow> string \<Rightarrow> string \<Rightarrow> ingredient list \<Rightarrow> instruction list \<Rightarrow> int \<Rightarrow> int \<Rightarrow> recipe_body \<Rightarrow> recipe" where
  "recipeFields_base uid t de ing ins ct sv b =
     \<lparr>recipe_user = uid, title = t, description = de, ingredients = ing, instructions = ins,
      cookingTime = ct, servings = sv,
      recipe_image = (if truthy_string (body_image b) then body_image b else None),
      tags = (case body_tags b of Some ts \<Rightarrow> ts | None \<Rightarrow> []),
      parentRecipe = None, isForked = False, modifications = None, recipe_likes = []\<rparr>"

text \<open>The tail of POST /api/recipes and of the fork route: \<^verbatim>\<open>new Recipe(..)\<close>,
  \<^verbatim>\<open>save\<close>, \<^verbatim>\<open>res.json\<close>; a \<^verbatim>\<open>save\<close> that throws ends in the
  \<^verbatim>\<open>catch\<close> block.\<close>

definition save_new_recipe :: "oid \<Rightarrow> recipe \<Rightarrow> db \<Rightarrow> response \<times> db" where
  "save_new_recipe newId r d =
     (case Recipe_insert newId r d of
        None \<Rightarrow> (server_error, d)
      | Some d' \<Rightarrow> ((200, RecipeDoc newId r), d'))"

text \<open>POST /api/recipes. \<open>newId\<close> is the \<^verbatim>\<open>_id\<close> that \<^verbatim>\<open>new Recipe\<close> draws.\<close>

definition recipes_post :: "oid \<Rightarrow> oid \<Rightarrow> recipe_body \<Rightarrow> db \<Rightarrow> response \<times> db" where
  "recipes_post newId uid b d =
     (if validate_recipe b \<noteq> [] then ((400, Errors (validate_recipe b)), d)
      else case (body_title b, body_description b, body_ingredients b, body_instructions b,
                 body_cookingTime b, body_servings b) of
        (Some t, Some de, Some ing, Some ins, Some ct, Some sv) \<Rightarrow>
          (let recipeFields = recipeFields_base uid t de ing ins ct sv b in
           case body_parentRecipe b of
             None \<Rightarrow> save_new_recipe newId recipeFields d
           | Some p \<Rightarrow>
               (case recipes d p of
                  None \<Rightarrow> ((404, Msg ''Parent recipe not found''), d)
                | Some originalRecipe \<Rightarrow>
                    save_new_recipe newId
                      (recipeFields\<lparr>parentRecipe := Some p, isForked := True,
                         modifications := (if truthy_string (body_modifications b)
                                           then body_modifications b else None)\<rparr>) d))
      | _ \<Rightarrow> (server_error, d))"

text \<open>The \<^verbatim>\<open>$set\<close> document of PUT /api/recipes/:id applied to the stored recipe.\<close>

definition set_recipeFields :: "recipe_body \<Rightarrow> recipe \<Rightarrow> recipe" where
  "set_recipeFields b r =
     r\<lparr>title := (case body_title b of Some v \<Rightarrow> if v \<noteq> [] then v else title r | None \<Rightarrow> title r),
       description := (case body_description b of
                         Some v \<Rightarrow> if v \<noteq> [] then v else description r | None \<Rightarrow> description r),
       ingredients := (case body_ingredients b of Some v \<Rightarrow> v | None \<Rightarrow> ingredients r),
       instructions := (case body_instructions b of Some v \<Rightarrow> v | None \<Rightarrow> instructions r),
       cookingTime := (case body_cookingTime b of
                         Some v \<Rightarrow> if v \<noteq> 0 then v else cookingTime r | None \<Rightarrow> cookingTime r),
       servings := (case body_servings b of
                      Some v \<Rightarrow> if v \<noteq> 0 then v else servings r | None \<Rightarrow> servings r),
       recipe_image := (if truthy_string (body_image b) then body_image b else recipe_image r),
       tags := (case body_tags b of Some v \<Rightarrow> v | None \<Rightarrow> tags r)\<rparr>"

text \<open>PUT /api/recipes/:id.\<close>

definition recipes_put :: "oid \<Rightarrow> oid \<Rightarrow> recipe_body \<Rightarrow> db \<Rightarrow> response \<times> db" where
  "recipes_put rid uid b d =
     (case recipes d rid of
        None \<Rightarrow> ((404, Msg ''Recipe not found''), d)
      | Some r \<Rightarrow>
          if recipe_user r \<noteq> uid then ((401, Msg ''User not authorized''), d)
          else ((200, RecipeDoc rid (set_recipeFields b r)),
                Recipe_save rid (set_recipeFields b r) d))"

text \<open>DELETE /api/recipes/:id.\<close>

definition recipes_delete :: "oid \<Rightarrow> oid \<Rightarrow> db \<Rightarrow> response \<times> db" where
  "recipes_delete rid uid d =
     (case recipes d rid of
        None \<Rightarrow> ((404, Msg ''Recipe not found''), d)
      | Some r \<Rightarrow>
          if recipe_user r \<noteq> uid then ((401, Msg ''User not authorized''), d)
          else ((200, Msg ''Recipe removed''), Comment_deleteMany rid (Recipe_deleteOne rid d)))"

text \<open>POST /api/recipes/:id/fork; \<open>mods\<close> is \<^verbatim>\<open>req.body.modifications\<close>.\<close>

definition recipes_fork :: "oid \<Rightarrow> oid \<Rightarrow> oid \<Rightarrow> string option \<Rightarrow> db \<Rightarrow> response \<times> db" where
  "recipes_fork newId rid uid mods d =
     (case recipes d rid of
        None \<Rightarrow> ((404, Msg ''Recipe not found''), d)
      | Some originalRecipe \<Rightarrow>
          save_new_recipe newId
            \<lparr>recipe_user = uid,
             title = title originalRecipe,
             description = description originalRecipe,
             ingredients = ingredients originalRecipe,
             instructions = instructions originalRecipe,
             cookingTime = cookingTime originalRecipe,
             servings = servings originalRecipe,
             recipe_image = recipe_image originalRecipe,
             tags = tags originalRecipe,
             parentRecipe = Some rid,
             isForked = True,
             modifications = (if truthy_string mods then mods else Some ''Forked recipe''),
             recipe_likes = []\<rparr> d)"

text \<open>POST /api/recipes/:id/image; \<open>file\<close> is \<^verbatim>\<open>req.file.filename\<close>, if a file came.\<close>

definition recipes_image :: "oid \<Rightarrow> oid \<Rightarrow> string option \<Rightarrow> db \<Rightarrow> response \<times> db" where
  "recipes_image rid uid file d =
     (case recipes d rid of
        None \<Rightarrow> ((404, Msg ''Recipe not found''), d)
      | Some r \<Rightarrow>
          if recipe_user r \<noteq> uid then ((401, Msg ''User not authorized''), d)
          else (case file of
                  None \<Rightarrow> ((400, Msg ''No file uploaded''), d)
                | Some filename \<Rightarrow>
                    (let r' = r\<lparr>recipe_image := Some (''/uploads/'' @ filename)\<rparr>
                     in case Recipe_save_validated rid r' d of
                          None \<Rightarrow> (server_error, d)
                        | Some d' \<Rightarrow> ((200, RecipeDoc rid r'), d'))))"

text \<open>\<^verbatim>\<open>likes.some(like => like.user.toString() === req.user.id)\<close>.\<close>

definition liked_by :: "oid \<Rightarrow> like list \<Rightarrow> bool" where
  "liked_by uid ls = list_ex (\<lambda>l. like_user l = uid) ls"

text \<open>PUT /api/recipes/:id/like.\<close>

definition recipes_like :: "oid \<Rightarrow> oid \<Rightarrow> db \<Rightarrow> response \<times> db" where
  "recipes_like rid uid d =
     (case recipes d rid of
        None \<Rightarrow> ((404, Msg ''Recipe not found''), d)
      | Some r \<Rightarrow>
          if liked_by uid (recipe_likes r) then ((400, Msg ''Recipe already liked''), d)
          else (let r' = r\<lparr>recipe_likes := \<lparr>like_user = uid\<rparr> # recipe_likes r\<rparr>
                in case Recipe_save_validated rid r' d of
                     None \<Rightarrow> (server_error, d)
                   | Some d' \<Rightarrow> ((200, Likes (recipe_likes r')), d')))"

text \<open>PUT /api/recipes/:id/unlike.\<close>

definition recipes_unlike :: "oid \<Rightarrow> oid \<Rightarrow> db \<Rightarrow> response \<times> db" where
  "recipes_unlike rid uid d =
     (case recipes d rid of
        None \<Rightarrow> ((404, Msg ''Recipe not found''), d)
      | Some r \<Rightarrow>
          if \<not> liked_by uid (recipe_likes r) then ((400, Msg ''Recipe has not yet been liked''), d)
          else (let r' = r\<lparr>recipe_likes := filter (\<lambda>l. like_user l \<noteq> uid) (recipe_likes r)\<rparr>
                in case Recipe_save_validated rid r' d of
                     None \<Rightarrow> (server_error, d)
                   | Some d' \<Rightarrow> ((200, Likes (recipe_likes r')), d')))"

section \<open>routes/comments.js\<close>

text \<open>\<^verbatim>\<open>comment.recipe.toString() !== req.params.recipeId\<close> answers this in five routes.\<close>

definition mismatch :: response where
  "mismatch = (400, Msg ''Comment does not belong to this recipe'')"

text \<open>POST /api/comments/:recipeId. \<open>text\<close> is \<^verbatim>\<open>req.body.text\<close>; reading
  \<^verbatim>\<open>user.name\<close> of a user that is not found throws.\<close>

definition comments_post :: "oid \<Rightarrow> oid \<Rightarrow> oid \<Rightarrow> string option \<Rightarrow> db \<Rightarrow> response \<times> db" where
  "comments_post newId rid uid txt d =
     (if check_notEmpty txt ''Text is required'' \<noteq> []
      then ((400, Errors (check_notEmpty txt ''Text is required'')), d)
      else case recipes d rid of
        None \<Rightarrow> ((404, Msg ''Recipe not found''), d)
      | Some recipe \<Rightarrow>
          (case (users d uid, txt) of
             (Some u, Some t) \<Rightarrow>
               (let newComment = \<lparr>comment_user = uid, comment_recipe = rid, comment_text = t,
                                  comment_name = Some (user_name u), comment_avatar = user_avatar u,
                                  comment_likes = []\<rparr>
                in case Comment_insert newId newComment d of
                     None \<Rightarrow> (server_error, d)
                   | Some d' \<Rightarrow> ((200, CommentDoc newId newComment), d'))
           | _ \<Rightarrow> (server_error, d)))"

text \<open>GET /api/comments/:recipeId/:commentId, with the author populated.\<close>

definition comments_get :: "oid \<Rightarrow> oid \<Rightarrow> db \<Rightarrow> response" where
  "comments_get rid cid d =
     (case comments d cid of
        None \<Rightarrow> (404, Msg ''Comment not found'')
      | Some c \<Rightarrow>
          if comment_recipe c \<noteq> rid then mismatch
          else (200, PopulatedComment cid c
                       (map_option (\<lambda>u. (user_name u, user_avatar u)) (users d (comment_user c)))))"

text \<open>PUT /api/comments/:recipeId/:commentId.\<close>

definition comments_put :: "oid \<Rightarrow> oid \<Rightarrow> oid \<Rightarrow> string option \<Rightarrow> db \<Rightarrow> response \<times> db" where
  "comments_put rid cid uid txt d =
     (if check_notEmpty txt ''Text is required'' \<noteq> []
      then ((400, Errors (check_notEmpty txt ''Text is required'')), d)
      else case comments d cid of
        None \<Rightarrow> ((404, Msg ''Comment not found''), d)
      | Some c \<Rightarrow>
          if comment_recipe c \<noteq> rid then (mismatch, d)
          else if comment_user c \<noteq> uid then ((401, Msg ''User not authorized''), d)
          else (case txt of
                  Some t \<Rightarrow> ((200, CommentDoc cid (c\<lparr>comment_text := t\<rparr>)),
                             Comment_save cid (c\<lparr>comment_text := t\<rparr>) d)
                | None \<Rightarrow> (server_error, d)))"

text \<open>DELETE /api/comments/:recipeId/:commentId.\<close>

definition comments_delete :: "oid \<Rightarrow> oid \<Rightarrow> oid \<Rightarrow> db \<Rightarrow> response \<times> db" where
  "comments_delete rid cid uid d =
     (case comments d cid of
        None \<Rightarrow> ((404, Msg ''Comment not found''), d)
      | Some c \<Rightarrow>
          (case recipes d rid of
             None \<Rightarrow> ((404, Msg ''Recipe not found''), d)
           | Some r \<Rightarrow>
               if comment_recipe c \<noteq> rid then (mismatch, d)
               else if comment_user c \<noteq> uid \<and> recipe_user r \<noteq> uid
                    then ((401, Msg ''User not authorized''), d)
               else ((200, Msg ''Comment removed''), Comment_deleteOne cid d)))"

text \<open>PUT /api/comments/:recipeId/:commentId/like.\<close>

definition comments_like :: "oid \<Rightarrow> oid \<Rightarrow> oid \<Rightarrow> db \<Rightarrow> response \<times> db" where
  "comments_like rid cid uid d =
     (case comments d cid of
        None \<Rightarrow> ((404, Msg ''Comment not found''), d)
      | Some c \<Rightarrow>
          if comment_recipe c \<noteq> rid then (mismatch, d)
          else if liked_by uid (comment_likes c) then ((400, Msg ''Comment already liked''), d)
          else (let c' = c\<lparr>comment_likes := \<lparr>like_user = uid\<rparr> # comment_likes c\<rparr>
                in ((200, Likes (comment_likes c')), Comment_save cid c' d)))"

text \<open>PUT /api/comments/:recipeId/:commentId/unlike.\<close>

definition comments_unlike :: "oid \<Rightarrow> oid \<Rightarrow> oid \<Rightarrow> db \<Rightarrow> response \<times> db" where
  "comments_unlike rid cid uid d =
     (case comments d cid of
        None \<Rightarrow> ((404, Msg ''Comment not found''), d)
      | Some c \<Rightarrow>
          if comment_recipe c \<noteq> rid then (mismatch, d)
          else if \<not> liked_by uid (comment_likes c)
               then ((400, Msg ''Comment has not yet been liked''), d)
          else (let c' = c\<lparr>comment_likes := filter (\<lambda>l. like_user l \<noteq> uid) (comment_likes c)\<rparr>
                in ((200, Likes (comment_likes c')), Comment_save cid c' d)))"

section \<open>routes/folders.js\<close>

record folder_body =
  body_name :: "string option"
  body_folder_description :: "string option"
  body_isPublic :: "bool option"

text \<open>POST /api/folders; \<^verbatim>\<open>isPublic || false\<close>.\<close>

definition folders_post :: "oid \<Rightarrow> oid \<Rightarrow> folder_body \<Rightarrow> db \<Rightarrow> response \<times> db" where
  "folders_post newId uid b d =
     (if check_notEmpty (body_name b) ''Name is required'' \<noteq> []
      then ((400, Errors (check_notEmpty (body_name b) ''Name is required'')), d)
      else case body_name b of
        None \<Rightarrow> (server_error, d)
      | Some n \<Rightarrow>
          (let newFolder = \<lparr>folder_user = uid, folder_name = n,
                            folder_description = body_folder_description b,
                            folder_recipes = [],
                            isPublic = (case body_isPublic b of Some p \<Rightarrow> p | None \<Rightarrow> False)\<rparr>
           in case Folder_insert newId newFolder d of
                None \<Rightarrow> (server_error, d)
              | Some d' \<Rightarrow> ((200, FolderDoc newId newFolder), d')))"

text \<open>The \<^verbatim>\<open>$set\<close> document of PUT /api/folders/:id applied to the stored folder.\<close>

definition set_folderFields :: "folder_body \<Rightarrow> folder \<Rightarrow> folder" where
  "set_folderFields b f =
     f\<lparr>folder_name := (case body_name b of
                         Some v \<Rightarrow> if v \<noteq> [] then v else folder_name f | None \<Rightarrow> folder_name f),
       folder_description := (case body_folder_description b of
                                Some v \<Rightarrow> Some v | None \<Rightarrow> folder_description f),
       isPublic := (case body_isPublic b of Some v \<Rightarrow> v | None \<Rightarrow> isPublic f)\<rparr>"

text \<open>PUT /api/folders/:id.\<close>

definition folders_put :: "oid \<Rightarrow> oid \<Rightarrow> folder_body \<Rightarrow> db \<Rightarrow> response \<times> db" where
  "folders_put fid uid b d =
     (case folders d fid of
        None \<Rightarrow> ((404, Msg ''Folder not found''), d)
      | Some f \<Rightarrow>
          if folder_user f \<noteq> uid then ((401, Msg ''User not authorized''), d)
          else ((200, FolderDoc fid (set_folderFields b f)),
                Folder_save fid (set_folderFields b f) d))"

text \<open>DELETE /api/folders/:id.\<close>

definition folders_delete :: "oid \<Rightarrow> oid \<Rightarrow> db \<Rightarrow> response \<times> db" where
  "folders_delete fid uid d =
     (case folders d fid of
        None \<Rightarrow> ((404, Msg ''Folder not found''), d)
      | Some f \<Rightarrow>
          if folder_user f \<noteq> uid then ((401, Msg ''User not authorized''), d)
          else ((200, Msg ''Folder removed''), Folder_deleteOne fid d))"

text \<open>PUT /api/folders/:id/recipes/:recipeId. \<^verbatim>\<open>includes\<close> of a Mongoose array of
  ObjectIds compares the identifiers.\<close>

definition folders_add_recipe :: "oid \<Rightarrow> oid \<Rightarrow> oid \<Rightarrow> db \<Rightarrow> response \<times> db" where
  "folders_add_recipe fid rid uid d =
     (case folders d fid of
        None \<Rightarrow> ((404, Msg ''Folder not found''), d)
      | Some f \<Rightarrow>
          (case recipes d rid of
             None \<Rightarrow> ((404, Msg ''Recipe not found''), d)
           | Some recipe \<Rightarrow>
               if folder_user f \<noteq> uid then ((401, Msg ''User not authorized''), d)
               else if rid \<in> set (folder_recipes f)
                    then ((400, Msg ''Recipe already in folder''), d)
               else (let f' = f\<lparr>folder_recipes := folder_recipes f @ [rid]\<rparr>
                     in ((200, FolderDoc fid f'), Folder_save fid f' d))))"

text \<open>DELETE /api/folders/:id/recipes/:recipeId.\<close>

definition folders_remove_recipe :: "oid \<Rightarrow> oid \<Rightarrow> oid \<Rightarrow> db \<Rightarrow> response \<times> db" where
  "folders_remove_recipe fid rid uid d =
     (case folders d fid of
        None \<Rightarrow> ((404, Msg ''Folder not found''), d)
      | Some f \<Rightarrow>
          if folder_user f \<noteq> uid then ((401, Msg ''User not authorized''), d)
          else if \<not> rid \<in> set (folder_recipes f)
               then ((400, Msg ''Recipe not in folder''), d)
          else (let f' = f\<lparr>folder_recipes := filter (\<lambda>recipe. recipe \<noteq> rid) (folder_recipes f)\<rparr>
                in ((200, FolderDoc fid f'), Folder_save fid f' d)))"

section \<open>The writing routes as one step\<close>

text \<open>
  Every route of the three routers that writes to the store, as a request; \<open>handle\<close> runs one
  request to its end before the next begins. The first argument is the \<^verbatim>\<open>_id\<close> drawn by
  \<^verbatim>\<open>new Model(..)\<close> in the routes that create a document. The other routes of the
  routers only read.
\<close>

datatype request =
    PostRecipe oid recipe_body
  | PutRecipe oid oid recipe_body
  | DeleteRecipe oid oid
  | ForkRecipe oid oid "string option"
  | ImageRecipe oid oid "string option"
  | LikeRecipe oid oid
  | UnlikeRecipe oid oid
  | PostComment oid oid "string option"
  | PutComment oid oid oid "string option"
  | DeleteComment oid oid oid
  | LikeComment oid oid oid
  | UnlikeComment oid oid oid
  | PostFolder oid folder_body
  | PutFolder oid oid folder_body
  | DeleteFolder oid oid
  | AddFolderRecipe oid oid oid
  | RemoveFolderRecipe oid oid oid

fun handle :: "oid \<Rightarrow> request \<Rightarrow> db \<Rightarrow> response \<times> db" where
  "handle newId (PostRecipe uid b) d = recipes_post newId uid b d"
| "handle newId (PutRecipe rid uid b) d = recipes_put rid uid b d"
| "handle newId (DeleteRecipe rid uid) d = recipes_delete rid uid d"
| "handle newId (ForkRecipe rid uid mods) d = recipes_fork newId rid uid mods d"
| "handle newId (ImageRecipe rid uid file) d = recipes_image rid uid file d"
| "handle newId (LikeRecipe rid uid) d = recipes_like rid uid d"
| "handle newId (UnlikeRecipe rid uid) d = recipes_unlike rid uid d"
| "handle newId (PostComment rid uid txt) d = comments_post newId rid uid txt d"
| "handle newId (PutComment rid cid uid txt) d = comments_put rid cid uid txt d"
| "handle newId (DeleteComment rid cid uid) d = comments_delete rid cid uid d"
| "handle newId (LikeComment rid cid uid) d = comments_like rid cid uid d"
| "handle newId (UnlikeComment rid cid uid) d = comments_unlike rid cid uid d"
| "handle newId (PostFolder uid b) d = folders_post newId uid b d"
| "handle newId (PutFolder fid uid b) d = folders_put fid uid b d"
| "handle newId (DeleteFolder fid uid) d = folders_delete fid uid d"
| "handle newId (AddFolderRecipe fid rid uid) d = folders_add_recipe fid rid uid d"
| "handle newId (RemoveFolderRecipe fid rid uid) d = folders_remove_recipe fid rid uid d"

text \<open>The uniqueness invariant of a likes list: no user twice.\<close>

definition likes_unique :: "like list \<Rightarrow> bool" where
  "likes_unique ls = distinct (map like_user ls)"

definition recipe_likes_unique :: "db \<Rightarrow> oid \<Rightarrow> bool" where
  "recipe_likes_unique d rid = (case recipes d rid of None \<Rightarrow> True | Some r \<Rightarrow> likes_unique (recipe_likes r))"

definition comment_likes_unique :: "db \<Rightarrow> oid \<Rightarrow> bool" where
  "comment_likes_unique d cid = (case comments d cid of None \<Rightarrow> True | Some c \<Rightarrow> likes_unique (comment_likes c))"

text \<open>Requests one after the other, each with the \<^verbatim>\<open>_id\<close> it may draw, and the store
  before the first request.\<close>

fun run :: "(oid \<times> request) list \<Rightarrow> db \<Rightarrow> db" where
  "run [] d = d"
| "run ((newId, req) # rest) d = run rest (snd (handle newId req d))"

definition empty_db :: db where
  "empty_db = \<lparr>users = Map.empty, recipes = Map.empty, folders = Map.empty,
               comments = Map.empty, journal = []\<rparr>"

section \<open>A small store\<close>

text \<open>
  Two users' recipes, a comment on each, and a folder whose second entry points at a recipe
  that has since been deleted. The theorems below are run on it.
\<close>

definition soup :: recipe where
  "soup = \<lparr>recipe_user = ObjectId 1, title = ''Soup'', description = ''Hot'',
           ingredients = [\<lparr>ing_name = ''water'', ing_quantity = ''1'', ing_unit = Some ''l''\<rparr>],
           instructions = [\<lparr>ins_step = 1, ins_text = ''Boil''\<rparr>],
           cookingTime = 20, servings = 2, recipe_image = Some ''/uploads/soup.png'',
           tags = [''warm''], parentRecipe = None, isForked = False, modifications = None,
           recipe_likes = [\<lparr>like_user = ObjectId 2\<rparr>]\<rparr>"

definition stew :: recipe where
  "stew = \<lparr>recipe_user = ObjectId 2, title = ''Stew'', description = ''Slow'',
           ingredients = [\<lparr>ing_name = ''beef'', ing_quantity = ''500'', ing_unit = Some ''g''\<rparr>],
           instructions = [\<lparr>ins_step = 1, ins_text = ''Simmer''\<rparr>],
           cookingTime = 120, servings = 4, recipe_image = None,
           tags = [], parentRecipe = None, isForked = False, modifications = None,
           recipe_likes = []\<rparr>"

definition praise :: comment where
  "praise = \<lparr>comment_user = ObjectId 2, comment_recipe = ObjectId 10, comment_text = ''Nice'',
             comment_name = Some ''Bo'', comment_avatar = None,
             comment_likes = [\<lparr>like_user = ObjectId 1\<rparr>]\<rparr>"

definition thanks :: comment where
  "thanks = \<lparr>comment_user = ObjectId 1, comment_recipe = ObjectId 11, comment_text = ''Thanks'',
             comment_name = Some ''Ann'', comment_avatar = None, comment_likes = []\<rparr>"

definition shelf :: folder where
  "shelf = \<lparr>folder_user = ObjectId 1, folder_name = ''Winter'', folder_description = None,
            folder_recipes = [ObjectId 10, ObjectId 99], isPublic = False\<rparr>"

definition db0 :: db where
  "db0 = \<lparr>users = [ObjectId 1 \<mapsto> \<lparr>user_name = ''Ann'', user_avatar = None\<rparr>,
                   ObjectId 2 \<mapsto> \<lparr>user_name = ''Bo'', user_avatar = None\<rparr>,
                   ObjectId 3 \<mapsto> \<lparr>user_name = ''Cy'', user_avatar = None\<rparr>],
          recipes = [ObjectId 10 \<mapsto> soup, ObjectId 11 \<mapsto> stew],
          folders = [ObjectId 30 \<mapsto> shelf],
          comments = [ObjectId 20 \<mapsto> praise, ObjectId 21 \<mapsto> thanks],
          journal = []\<rparr>"

text \<open>A PUT body that renames the soup and carries \<^verbatim>\<open>cookingTime: 0\<close> and \<^verbatim>\<open>image: ""\<close>.\<close>

definition soup_patch :: recipe_body where
  "soup_patch = \<lparr>body_title = Some ''Broth'', body_description = None, body_ingredients = None,
                 body_instructions = None, body_cookingTime = Some 0, body_servings = None,
                 body_image = Some [], body_tags = Some [], body_parentRecipe = None,
                 body_modifications = None\<rparr>"



text \<open>A POST body that names the soup as its parent and says nothing about modifications.\<close>

definition child_body :: recipe_body where
  "child_body = \<lparr>body_title = Some ''Soup two'', body_description = Some ''Hotter'',
                 body_ingredients = Some [\<lparr>ing_name = ''water'', ing_quantity = ''2'', ing_unit = None\<rparr>],
                 body_instructions = Some [\<lparr>ins_step = 1, ins_text = ''Boil''\<rparr>],
                 body_cookingTime = Some 25, body_servings = Some 2,
                 body_image = None, body_tags = None, body_parentRecipe = Some (ObjectId 10),
                 body_modifications = None\<rparr>"

section \<open>Auxiliary facts\<close>

lemma liked_by_iff: "liked_by uid ls \<longleftrightarrow> uid \<in> like_user ` set ls"
  by (auto simp: liked_by_def list_ex_iff)

lemma count_list_append_single:
  "count_list (xs @ [x]) y = count_list xs y + (if x = y then 1 else 0)"
  by (induction xs) auto

lemma count_list_zero_iff: "count_list xs x = 0 \<longleftrightarrow> x \<notin> set xs"
  by (induction xs) auto

lemma db0_recipes:
  "recipes db0 (ObjectId 10) = Some soup" "recipes db0 (ObjectId 11) = Some stew"
  "recipes db0 (ObjectId 12) = None" "recipes db0 (ObjectId 99) = None"
  by (simp_all add: db0_def)

lemma db0_comments:
  "comments db0 (ObjectId 20) = Some praise" "comments db0 (ObjectId 21) = Some thanks"
  by (simp_all add: db0_def)

lemma db0_folders:
  "folders db0 (ObjectId 30) = Some shelf" "folders db0 (ObjectId 31) = None"
  by (simp_all add: db0_def)

lemma db0_journal: "journal db0 = []"
  by (simp add: db0_def)


lemma valid_recipe_image: "valid_recipe (r\<lparr>recipe_image := x\<rparr>) = valid_recipe r"
  by (simp add: valid_recipe_def)

lemma valid_soup: "valid_recipe soup"
  by (simp add: valid_recipe_def valid_ingredient_def valid_instruction_def soup_def)



section \<open>Cascade delete\<close>

text \<open>
  C1. When the requesting user owns the recipe, DELETE /api/recipes/:id answers
  \<^verbatim>\<open>Recipe removed\<close>; the store after it is the store after
  \<^verbatim>\<open>recipe.deleteOne()\<close> followed by \<^verbatim>\<open>Comment.deleteMany({ recipe: id })\<close>, and
  the journal grows by exactly these two writes in this order. The recipe is gone, every
  comment whose \<^verbatim>\<open>recipe\<close> is the id is gone, every other comment is as it was, and no
  comment appears; folders and users are not touched.
\<close>

theorem recipes_delete_cascade:
  assumes "recipes d rid = Some r" and "recipe_user r = uid"
  shows "fst (recipes_delete rid uid d) = (200, Msg ''Recipe removed'')
       \<and> snd (recipes_delete rid uid d) = Comment_deleteMany rid (Recipe_deleteOne rid d)
       \<and> journal (snd (recipes_delete rid uid d))
           = journal d @ [RecipeDelete rid, CommentDeleteMany rid]
       \<and> recipes (snd (recipes_delete rid uid d)) = (recipes d)(rid := None)
       \<and> (\<forall>cid c. comments d cid = Some c \<longrightarrow>
             comments (snd (recipes_delete rid uid d)) cid
               = (if comment_recipe c = rid then None else Some c))
       \<and> (\<forall>cid. comments d cid = None \<longrightarrow> comments (snd (recipes_delete rid uid d)) cid = None)
       \<and> folders (snd (recipes_delete rid uid d)) = folders d
       \<and> users (snd (recipes_delete rid uid d)) = users d"
  using assms
  by (simp add: recipes_delete_def Comment_deleteMany_def Recipe_deleteOne_def)

text \<open>On the small store: Ann deletes her soup; the comment on it goes, the comment on the
  stew stays.\<close>

theorem recipes_delete_cascade_witness:
  "recipes db0 (ObjectId 10) = Some soup \<and> recipe_user soup = ObjectId 1
   \<and> fst (recipes_delete (ObjectId 10) (ObjectId 1) db0) = (200, Msg ''Recipe removed'')
   \<and> recipes (snd (recipes_delete (ObjectId 10) (ObjectId 1) db0)) (ObjectId 10) = None
   \<and> comments (snd (recipes_delete (ObjectId 10) (ObjectId 1) db0)) (ObjectId 20) = None
   \<and> comments (snd (recipes_delete (ObjectId 10) (ObjectId 1) db0)) (ObjectId 21) = Some thanks
   \<and> journal (snd (recipes_delete (ObjectId 10) (ObjectId 1) db0))
       = [RecipeDelete (ObjectId 10), CommentDeleteMany (ObjectId 10)]"
proof -
  let ?d = "snd (recipes_delete (ObjectId 10) (ObjectId 1) db0)"
  have h2: "recipe_user soup = ObjectId 1" by (simp add: soup_def)
  note t = recipes_delete_cascade [OF db0_recipes(1) h2]
  from t have a: "\<forall>cid c. comments db0 cid = Some c \<longrightarrow>
      comments ?d cid = (if comment_recipe c = ObjectId 10 then None else Some c)"
    by blast
  from a db0_comments(1) have r1: "comments ?d (ObjectId 20) = None"
    by (simp add: praise_def)
  from a db0_comments(2) have r2: "comments ?d (ObjectId 21) = Some thanks"
    by (simp add: thanks_def)
  from t have "recipes ?d = (recipes db0)(ObjectId 10 := None)" by blast
  then have r3: "recipes ?d (ObjectId 10) = None" by simp
  from t have r4: "fst (recipes_delete (ObjectId 10) (ObjectId 1) db0) = (200, Msg ''Recipe removed'')"
    by blast
  from t have r5: "journal ?d = journal db0 @ [RecipeDelete (ObjectId 10), CommentDeleteMany (ObjectId 10)]"
    by blast
  from r1 r2 r3 r4 r5 h2 show ?thesis
    by (simp add: db0_recipes db0_journal)
qed

section \<open>Fork\<close>




section \<open>Like and unlike\<close>




section \<open>Comments: who may delete, and the recipe in the path\<close>

text \<open>
  C4. For a comment that exists and is addressed through its own recipe, which exists:
  DELETE /api/comments/:recipeId/:commentId removes the comment exactly when the requesting
  user is the comment's author or the recipe's owner; for every other user it answers
  \<^verbatim>\<open>401 User not authorized\<close> and the store is as it was.
\<close>

theorem comments_delete_dual_authorization:
  assumes "comments d cid = Some c" and "comment_recipe c = rid" and "recipes d rid = Some r"
  shows "comments_delete rid cid uid d
           = (if uid = comment_user c \<or> uid = recipe_user r
              then ((200, Msg ''Comment removed''),
                    d\<lparr>comments := (comments d)(cid := None),
                      journal := journal d @ [CommentDelete cid]\<rparr>)
              else ((401, Msg ''User not authorized''), d))"
  using assms by (auto simp: comments_delete_def Comment_deleteOne_def)

text \<open>On the small store: Bo's comment on Ann's soup. Ann and Bo may delete it, Cy may not.\<close>

theorem comments_delete_dual_authorization_witness:
  "comments db0 (ObjectId 20) = Some praise \<and> comment_recipe praise = ObjectId 10
   \<and> recipes db0 (ObjectId 10) = Some soup
   \<and> fst (comments_delete (ObjectId 10) (ObjectId 20) (ObjectId 1) db0) = (200, Msg ''Comment removed'')
   \<and> comments (snd (comments_delete (ObjectId 10) (ObjectId 20) (ObjectId 1) db0)) (ObjectId 20) = None
   \<and> fst (comments_delete (ObjectId 10) (ObjectId 20) (ObjectId 2) db0) = (200, Msg ''Comment removed'')
   \<and> comments_delete (ObjectId 10) (ObjectId 20) (ObjectId 3) db0
       = ((401, Msg ''User not authorized''), db0)"
proof -
  have h: "comment_recipe praise = ObjectId 10" by (simp add: praise_def)
  have u: "comment_user praise = ObjectId 2" "recipe_user soup = ObjectId 1"
    by (simp_all add: praise_def soup_def)
  note t = comments_delete_dual_authorization [OF db0_comments(1) h db0_recipes(1)]
  from t [of "ObjectId 1"] u
  have 1: "fst (comments_delete (ObjectId 10) (ObjectId 20) (ObjectId 1) db0) = (200, Msg ''Comment removed'')"
    and 2: "comments (snd (comments_delete (ObjectId 10) (ObjectId 20) (ObjectId 1) db0)) (ObjectId 20) = None"
    by simp_all
  from t [of "ObjectId 2"] u
  have 3: "fst (comments_delete (ObjectId 10) (ObjectId 20) (ObjectId 2) db0) = (200, Msg ''Comment removed'')"
    by simp
  from t [of "ObjectId 3"] u
  have 4: "comments_delete (ObjectId 10) (ObjectId 20) (ObjectId 3) db0
             = ((401, Msg ''User not authorized''), db0)"
    by simp
  from 1 2 3 4 h show ?thesis by (simp add: db0_recipes db0_comments)
qed

text \<open>
  DELETE of Bo's comment through a recipe id that resolves to no recipe: the comment exists,
  its recipe differs from the path's, and the answer is \<^verbatim>\<open>404 Recipe not found\<close>. PUT of
  the same comment through the stew with an empty text: the answer is the validation error.
\<close>

theorem comments_mismatch_counterexample:
  "comments db0 (ObjectId 20) = Some praise \<and> comment_recipe praise \<noteq> ObjectId 99
   \<and> fst (comments_delete (ObjectId 99) (ObjectId 20) (ObjectId 2) db0) = (404, Msg ''Recipe not found'')
   \<and> fst (comments_delete (ObjectId 99) (ObjectId 20) (ObjectId 2) db0) \<noteq> mismatch
   \<and> comment_recipe praise \<noteq> ObjectId 11
   \<and> fst (comments_put (ObjectId 11) (ObjectId 20) (ObjectId 2) (Some []) db0)
       = (400, Errors [''Text is required''])
   \<and> fst (comments_put (ObjectId 11) (ObjectId 20) (ObjectId 2) (Some []) db0) \<noteq> mismatch"
  by (simp add: comments_delete_def comments_put_def check_notEmpty_def truthy_string_def
        mismatch_def db0_def praise_def)

text \<open>
  C5, amended. For a comment that exists and whose stored recipe differs from the recipe id of
  the path: read, like and unlike answer \<^verbatim>\<open>400 Comment does not belong to this recipe\<close>;
  update answers the same when the text of the payload is not empty, and the validation error
  \<^verbatim>\<open>Text is required\<close> when it is empty or missing; delete answers the same when the
  recipe id of the path resolves to a recipe, and \<^verbatim>\<open>404 Recipe not found\<close> when it does
  not. In every case the body is a message, never the comment, and the store is as it was.
\<close>

theorem comment_reference_mismatch:
  assumes "comments d cid = Some c" and "comment_recipe c \<noteq> rid"
  shows "comments_get rid cid d = mismatch
       \<and> comments_put rid cid uid txt d
           = (if truthy_string txt then (mismatch, d) else ((400, Errors [''Text is required'']), d))
       \<and> comments_delete rid cid uid d
           = (if recipes d rid = None then ((404, Msg ''Recipe not found''), d) else (mismatch, d))
       \<and> comments_like rid cid uid d = (mismatch, d)
       \<and> comments_unlike rid cid uid d = (mismatch, d)"
  using assms
  by (auto simp: comments_get_def comments_put_def comments_delete_def comments_like_def
        comments_unlike_def check_notEmpty_def split: option.splits)

text \<open>On the small store: Bo's comment on the soup, addressed through the stew.\<close>

theorem comment_reference_mismatch_witness:
  "comments db0 (ObjectId 20) = Some praise \<and> comment_recipe praise \<noteq> ObjectId 11
   \<and> comments_get (ObjectId 11) (ObjectId 20) db0
       = (400, Msg ''Comment does not belong to this recipe'')
   \<and> comments_put (ObjectId 11) (ObjectId 20) (ObjectId 2) (Some ''Good'') db0
       = ((400, Msg ''Comment does not belong to this recipe''), db0)
   \<and> comments_delete (ObjectId 11) (ObjectId 20) (ObjectId 2) db0
       = ((400, Msg ''Comment does not belong to this recipe''), db0)
   \<and> comments_like (ObjectId 11) (ObjectId 20) (ObjectId 2) db0
       = ((400, Msg ''Comment does not belong to this recipe''), db0)
   \<and> comments_unlike (ObjectId 11) (ObjectId 20) (ObjectId 1) db0
       = ((400, Msg ''Comment does not belong to this recipe''), db0)"
proof -
  have h: "comment_recipe praise \<noteq> ObjectId 11" by (simp add: praise_def)
  note t = comment_reference_mismatch [OF db0_comments(1) h]
  from t [of "ObjectId 2" "Some ''Good''"] t [of "ObjectId 1" "Some ''Good''"] h show ?thesis
    by (simp add: mismatch_def truthy_string_def db0_recipes db0_comments)
qed

section \<open>Folder membership\<close>

text \<open>
  C6. For a folder that exists and belongs to the requesting user: adding a recipe that exists
  answers \<^verbatim>\<open>Recipe already in folder\<close> and leaves the store as it is when the recipe is
  in the folder's list, and otherwise puts it at the end of the list; removing a recipe answers
  \<^verbatim>\<open>Recipe not in folder\<close> and leaves the store as it is when the recipe is not in the
  list, and otherwise removes every occurrence. When the list holds the recipe at most once, as
  the Folder invariant says, then after adding it the list holds it exactly once and adding it
  again answers \<^verbatim>\<open>Recipe already in folder\<close> and changes nothing.
\<close>

theorem folder_membership:
  assumes "folders d fid = Some f" and "folder_user f = uid"
  shows "(recipes d rid \<noteq> None \<longrightarrow>
            folders_add_recipe fid rid uid d
              = (if rid \<in> set (folder_recipes f)
                 then ((400, Msg ''Recipe already in folder''), d)
                 else ((200, FolderDoc fid (f\<lparr>folder_recipes := folder_recipes f @ [rid]\<rparr>)),
                       d\<lparr>folders := (folders d)
                            (fid \<mapsto> f\<lparr>folder_recipes := folder_recipes f @ [rid]\<rparr>),
                         journal := journal d @ [FolderUpdate fid]\<rparr>)))
       \<and> folders_remove_recipe fid rid uid d
              = (if rid \<notin> set (folder_recipes f)
                 then ((400, Msg ''Recipe not in folder''), d)
                 else ((200, FolderDoc fid
                               (f\<lparr>folder_recipes := filter (\<lambda>x. x \<noteq> rid) (folder_recipes f)\<rparr>)),
                       d\<lparr>folders := (folders d)
                            (fid \<mapsto> f\<lparr>folder_recipes := filter (\<lambda>x. x \<noteq> rid) (folder_recipes f)\<rparr>),
                         journal := journal d @ [FolderUpdate fid]\<rparr>))
       \<and> (recipes d rid \<noteq> None \<and> count_list (folder_recipes f) rid \<le> 1 \<longrightarrow>
            (\<exists>f'. folders (snd (folders_add_recipe fid rid uid d)) fid = Some f'
                  \<and> count_list (folder_recipes f') rid = 1
                  \<and> folders_add_recipe fid rid uid (snd (folders_add_recipe fid rid uid d))
                      = ((400, Msg ''Recipe already in folder''),
                         snd (folders_add_recipe fid rid uid d))))"
proof (intro conjI impI)
  assume "recipes d rid \<noteq> None"
  then show "folders_add_recipe fid rid uid d
              = (if rid \<in> set (folder_recipes f)
                 then ((400, Msg ''Recipe already in folder''), d)
                 else ((200, FolderDoc fid (f\<lparr>folder_recipes := folder_recipes f @ [rid]\<rparr>)),
                       d\<lparr>folders := (folders d)
                            (fid \<mapsto> f\<lparr>folder_recipes := folder_recipes f @ [rid]\<rparr>),
                         journal := journal d @ [FolderUpdate fid]\<rparr>))"
    using assms by (auto simp: folders_add_recipe_def Folder_save_def Let_def)
next
  show "folders_remove_recipe fid rid uid d
              = (if rid \<notin> set (folder_recipes f)
                 then ((400, Msg ''Recipe not in folder''), d)
                 else ((200, FolderDoc fid
                               (f\<lparr>folder_recipes := filter (\<lambda>x. x \<noteq> rid) (folder_recipes f)\<rparr>)),
                       d\<lparr>folders := (folders d)
                            (fid \<mapsto> f\<lparr>folder_recipes := filter (\<lambda>x. x \<noteq> rid) (folder_recipes f)\<rparr>),
                         journal := journal d @ [FolderUpdate fid]\<rparr>))"
    using assms by (simp add: folders_remove_recipe_def Folder_save_def Let_def)
next
  assume a: "recipes d rid \<noteq> None \<and> count_list (folder_recipes f) rid \<le> 1"
  show "\<exists>f'. folders (snd (folders_add_recipe fid rid uid d)) fid = Some f'
                  \<and> count_list (folder_recipes f') rid = 1
                  \<and> folders_add_recipe fid rid uid (snd (folders_add_recipe fid rid uid d))
                      = ((400, Msg ''Recipe already in folder''),
                         snd (folders_add_recipe fid rid uid d))"
  proof (cases "rid \<in> set (folder_recipes f)")
    case True
    then have "count_list (folder_recipes f) rid \<noteq> 0" by (simp add: count_list_zero_iff)
    with a have "count_list (folder_recipes f) rid = 1" by simp
    with True a assms show ?thesis
      by (auto simp: folders_add_recipe_def)
  next
    case False
    then have "count_list (folder_recipes f) rid = 0" by (simp add: count_list_zero_iff)
    with False a assms show ?thesis
      by (auto simp: folders_add_recipe_def Folder_save_def Let_def count_list_append_single)
  qed
qed

text \<open>On the small store: Ann's folder holds the soup. She adds the stew, twice; she adds the
  soup; she removes the soup; she removes the stew, which is not there.\<close>

theorem folder_membership_witness:
  "folders db0 (ObjectId 30) = Some shelf \<and> folder_user shelf = ObjectId 1
   \<and> recipes db0 (ObjectId 11) \<noteq> None \<and> count_list (folder_recipes shelf) (ObjectId 11) \<le> 1
   \<and> fst (folders_add_recipe (ObjectId 30) (ObjectId 11) (ObjectId 1) db0)
       = (200, FolderDoc (ObjectId 30)
                 (shelf\<lparr>folder_recipes := [ObjectId 10, ObjectId 99, ObjectId 11]\<rparr>))
   \<and> folders_add_recipe (ObjectId 30) (ObjectId 11) (ObjectId 1)
         (snd (folders_add_recipe (ObjectId 30) (ObjectId 11) (ObjectId 1) db0))
       = ((400, Msg ''Recipe already in folder''),
          snd (folders_add_recipe (ObjectId 30) (ObjectId 11) (ObjectId 1) db0))
   \<and> folders_add_recipe (ObjectId 30) (ObjectId 10) (ObjectId 1) db0
       = ((400, Msg ''Recipe already in folder''), db0)
   \<and> fst (folders_remove_recipe (ObjectId 30) (ObjectId 10) (ObjectId 1) db0)
       = (200, FolderDoc (ObjectId 30) (shelf\<lparr>folder_recipes := [ObjectId 99]\<rparr>))
   \<and> folders_remove_recipe (ObjectId 30) (ObjectId 11) (ObjectId 1) db0
       = ((400, Msg ''Recipe not in folder''), db0)"
proof -
  have u: "folder_user shelf = ObjectId 1" by (simp add: shelf_def)
  have l: "folder_recipes shelf = [ObjectId 10, ObjectId 99]" by (simp add: shelf_def)
  have c: "count_list (folder_recipes shelf) (ObjectId 11) \<le> 1" by (simp add: l)
  have e: "recipes db0 (ObjectId 11) \<noteq> None" "recipes db0 (ObjectId 10) \<noteq> None"
    by (simp_all add: db0_recipes)
  note t = folder_membership [OF db0_folders(1) u]
  from t [of "ObjectId 11"] e l
  have 1: "fst (folders_add_recipe (ObjectId 30) (ObjectId 11) (ObjectId 1) db0)
             = (200, FolderDoc (ObjectId 30)
                       (shelf\<lparr>folder_recipes := [ObjectId 10, ObjectId 99, ObjectId 11]\<rparr>))"
    and 5: "folders_remove_recipe (ObjectId 30) (ObjectId 11) (ObjectId 1) db0
             = ((400, Msg ''Recipe not in folder''), db0)"
    by simp_all
  from t [of "ObjectId 11"] e c
  have 2: "folders_add_recipe (ObjectId 30) (ObjectId 11) (ObjectId 1)
             (snd (folders_add_recipe (ObjectId 30) (ObjectId 11) (ObjectId 1) db0))
           = ((400, Msg ''Recipe already in folder''),
              snd (folders_add_recipe (ObjectId 30) (ObjectId 11) (ObjectId 1) db0))"
    by blast
  from t [of "ObjectId 10"] e l
  have 3: "folders_add_recipe (ObjectId 30) (ObjectId 10) (ObjectId 1) db0
             = ((400, Msg ''Recipe already in folder''), db0)"
    and 4: "fst (folders_remove_recipe (ObjectId 30) (ObjectId 10) (ObjectId 1) db0)
             = (200, FolderDoc (ObjectId 30) (shelf\<lparr>folder_recipes := [ObjectId 99]\<rparr>))"
    by simp_all
  from 1 2 3 4 5 u c e show ?thesis by (simp add: db0_folders)
qed

text \<open>
  DELETE /api/folders/30/recipes/99 on the small store: no recipe 99 exists, and the route
  answers 200 and saves the folder without the entry. For recipe 98, which does not exist
  and is not in the folder, it answers \<^verbatim>\<open>400 Recipe not in folder\<close>.
\<close>

theorem folders_remove_recipe_counterexample:
  "recipes db0 (ObjectId 99) = None
   \<and> map_option folder_recipes (folders db0 (ObjectId 30)) = Some [ObjectId 10, ObjectId 99]
   \<and> fst (folders_remove_recipe (ObjectId 30) (ObjectId 99) (ObjectId 1) db0)
       = (200, FolderDoc (ObjectId 30) (shelf\<lparr>folder_recipes := [ObjectId 10]\<rparr>))
   \<and> map_option folder_recipes
       (folders (snd (folders_remove_recipe (ObjectId 30) (ObjectId 99) (ObjectId 1) db0)) (ObjectId 30))
       = Some [ObjectId 10]
   \<and> recipes db0 (ObjectId 98) = None
   \<and> fst (folders_remove_recipe (ObjectId 30) (ObjectId 98) (ObjectId 1) db0)
       = (400, Msg ''Recipe not in folder'')"
  by (simp add: folders_remove_recipe_def Folder_save_def Let_def db0_def shelf_def)

text \<open>
  C7, amended. Adding a recipe to a folder first looks both up: when the folder does not exist
  it answers \<^verbatim>\<open>404 Folder not found\<close>, when the folder exists and the recipe does not
  it answers \<^verbatim>\<open>404 Recipe not found\<close>, in both cases whoever asks and with the store as
  it was. Removing a recipe from a folder looks only the folder up: it answers
  \<^verbatim>\<open>404 Folder not found\<close> with the store as it was when the folder does not exist, and
  when the folder exists its answer depends on the folder alone (owner, then membership), not
  on whether the recipe exists.
\<close>

theorem folder_existence_checks:
  "(folders d fid = None \<longrightarrow>
      folders_add_recipe fid rid uid d = ((404, Msg ''Folder not found''), d)
    \<and> folders_remove_recipe fid rid uid d = ((404, Msg ''Folder not found''), d))
 \<and> (folders d fid \<noteq> None \<and> recipes d rid = None \<longrightarrow>
      folders_add_recipe fid rid uid d = ((404, Msg ''Recipe not found''), d))
 \<and> (folders d fid = Some f \<longrightarrow>
      folders_remove_recipe fid rid uid d
        = (if folder_user f \<noteq> uid then ((401, Msg ''User not authorized''), d)
           else if rid \<notin> set (folder_recipes f) then ((400, Msg ''Recipe not in folder''), d)
           else ((200, FolderDoc fid
                         (f\<lparr>folder_recipes := filter (\<lambda>x. x \<noteq> rid) (folder_recipes f)\<rparr>)),
                 d\<lparr>folders := (folders d)
                      (fid \<mapsto> f\<lparr>folder_recipes := filter (\<lambda>x. x \<noteq> rid) (folder_recipes f)\<rparr>),
                   journal := journal d @ [FolderUpdate fid]\<rparr>)))"
  by (auto simp: folders_add_recipe_def folders_remove_recipe_def Folder_save_def Let_def)

text \<open>On the small store: folder 31 does not exist; recipe 99 does not exist; Bo does not own
  Ann's folder.\<close>

theorem folder_existence_checks_witness:
  "folders db0 (ObjectId 31) = None \<and> folders db0 (ObjectId 30) = Some shelf
   \<and> recipes db0 (ObjectId 99) = None
   \<and> folders_add_recipe (ObjectId 31) (ObjectId 10) (ObjectId 1) db0
       = ((404, Msg ''Folder not found''), db0)
   \<and> folders_remove_recipe (ObjectId 31) (ObjectId 10) (ObjectId 1) db0
       = ((404, Msg ''Folder not found''), db0)
   \<and> folders_add_recipe (ObjectId 30) (ObjectId 99) (ObjectId 2) db0
       = ((404, Msg ''Recipe not found''), db0)
   \<and> folders_remove_recipe (ObjectId 30) (ObjectId 99) (ObjectId 2) db0
       = ((401, Msg ''User not authorized''), db0)"
proof -
  have u: "folder_user shelf = ObjectId 1" by (simp add: shelf_def)
  have n: "folders db0 (ObjectId 30) \<noteq> None" by (simp add: db0_folders)
  from folder_existence_checks [of db0 "ObjectId 31" "ObjectId 10" "ObjectId 1" shelf]
    db0_folders(2)
  have 1: "folders_add_recipe (ObjectId 31) (ObjectId 10) (ObjectId 1) db0
             = ((404, Msg ''Folder not found''), db0)"
    and 2: "folders_remove_recipe (ObjectId 31) (ObjectId 10) (ObjectId 1) db0
             = ((404, Msg ''Folder not found''), db0)"
    by simp_all
  from folder_existence_checks [of db0 "ObjectId 30" "ObjectId 99" "ObjectId 2" shelf]
    db0_folders(1) db0_recipes(4) n u
  have 3: "folders_add_recipe (ObjectId 30) (ObjectId 99) (ObjectId 2) db0
             = ((404, Msg ''Recipe not found''), db0)"
    and 4: "folders_remove_recipe (ObjectId 30) (ObjectId 99) (ObjectId 2) db0
             = ((401, Msg ''User not authorized''), db0)"
    by simp_all
  from 1 2 3 4 show ?thesis by (simp add: db0_folders db0_recipes)
qed

section \<open>Recipe update\<close>

text \<open>
  PUT /api/recipes/10 by Ann with \<^verbatim>\<open>cookingTime: 0\<close> and \<^verbatim>\<open>image: ""\<close> in the
  payload: both keys are present, and the stored cooking time and image stay as they were.
\<close>

theorem recipes_put_falsy_counterexample:
  "body_cookingTime soup_patch = Some 0 \<and> body_image soup_patch = Some []
   \<and> map_option cookingTime
       (recipes (snd (recipes_put (ObjectId 10) (ObjectId 1) soup_patch db0)) (ObjectId 10))
       = Some 20
   \<and> map_option recipe_image
       (recipes (snd (recipes_put (ObjectId 10) (ObjectId 1) soup_patch db0)) (ObjectId 10))
       = Some (Some ''/uploads/soup.png'')"
  by (simp add: recipes_put_def set_recipeFields_def Recipe_save_def truthy_string_def
        db0_def soup_def soup_patch_def)

text \<open>
  C8, amended. For an update by the owner, each of title, description, cookingTime, servings
  and image is set to the payload's value exactly when the payload has the key with a value
  that passes \<^verbatim>\<open>if (v)\<close> (a string that is not empty, a number that is not 0), and each of
  ingredients, instructions and tags exactly when the payload has the key; otherwise the field
  keeps its old value. The fields user, likes, parentRecipe, isForked and modifications are
  unchanged. The route answers with the updated recipe and saves exactly it.
\<close>

theorem recipes_put_merge_patch:
  assumes "recipes d rid = Some r" and "recipe_user r = uid"
  shows "\<exists>r'. recipes_put rid uid b d
                = ((200, RecipeDoc rid r'),
                   d\<lparr>recipes := (recipes d)(rid \<mapsto> r'), journal := journal d @ [RecipeUpdate rid]\<rparr>)
       \<and> title r' = (case body_title b of Some v \<Rightarrow> if v = [] then title r else v | None \<Rightarrow> title r)
       \<and> description r' = (case body_description b of
                             Some v \<Rightarrow> if v = [] then description r else v | None \<Rightarrow> description r)
       \<and> ingredients r' = (case body_ingredients b of Some v \<Rightarrow> v | None \<Rightarrow> ingredients r)
       \<and> instructions r' = (case body_instructions b of Some v \<Rightarrow> v | None \<Rightarrow> instructions r)
       \<and> cookingTime r' = (case body_cookingTime b of
                             Some v \<Rightarrow> if v = 0 then cookingTime r else v | None \<Rightarrow> cookingTime r)
       \<and> servings r' = (case body_servings b of
                          Some v \<Rightarrow> if v = 0 then servings r else v | None \<Rightarrow> servings r)
       \<and> recipe_image r' = (case body_image b of
                              Some v \<Rightarrow> if v = [] then recipe_image r else Some v
                            | None \<Rightarrow> recipe_image r)
       \<and> tags r' = (case body_tags b of Some v \<Rightarrow> v | None \<Rightarrow> tags r)
       \<and> recipe_user r' = recipe_user r \<and> recipe_likes r' = recipe_likes r
       \<and> parentRecipe r' = parentRecipe r \<and> isForked r' = isForked r
       \<and> modifications r' = modifications r"
  using assms
  by (auto simp: recipes_put_def set_recipeFields_def Recipe_save_def truthy_string_def
           split: option.splits)

text \<open>On the small store: Ann renames her soup and empties its tags.\<close>

theorem recipes_put_merge_patch_witness:
  "recipes db0 (ObjectId 10) = Some soup \<and> recipe_user soup = ObjectId 1
   \<and> map_option title
       (recipes (snd (recipes_put (ObjectId 10) (ObjectId 1) soup_patch db0)) (ObjectId 10))
       = Some ''Broth''
   \<and> map_option tags
       (recipes (snd (recipes_put (ObjectId 10) (ObjectId 1) soup_patch db0)) (ObjectId 10))
       = Some []
   \<and> map_option servings
       (recipes (snd (recipes_put (ObjectId 10) (ObjectId 1) soup_patch db0)) (ObjectId 10))
       = Some 2
   \<and> map_option recipe_likes
       (recipes (snd (recipes_put (ObjectId 10) (ObjectId 1) soup_patch db0)) (ObjectId 10))
       = Some [\<lparr>like_user = ObjectId 2\<rparr>]"
proof -
  let ?p = "recipes_put (ObjectId 10) (ObjectId 1) soup_patch db0"
  have u: "recipe_user soup = ObjectId 1" by (simp add: soup_def)
  from recipes_put_merge_patch [OF db0_recipes(1) u, of soup_patch]
  obtain r' where
    p: "?p = ((200, RecipeDoc (ObjectId 10) r'),
              db0\<lparr>recipes := (recipes db0)(ObjectId 10 \<mapsto> r'),
                  journal := journal db0 @ [RecipeUpdate (ObjectId 10)]\<rparr>)"
    and t: "title r' = (case body_title soup_patch of
                          Some v \<Rightarrow> if v = [] then title soup else v | None \<Rightarrow> title soup)"
    and g: "tags r' = (case body_tags soup_patch of Some v \<Rightarrow> v | None \<Rightarrow> tags soup)"
    and s: "servings r' = (case body_servings soup_patch of
                             Some v \<Rightarrow> if v = 0 then servings soup else v | None \<Rightarrow> servings soup)"
    and l: "recipe_likes r' = recipe_likes soup"
    by auto
  from p have "recipes (snd ?p) (ObjectId 10) = Some r'" by simp
  with t g s l u show ?thesis
    by (simp add: db0_recipes soup_patch_def soup_def)
qed

section \<open>Create as fork\<close>

text \<open>
  C10. For a create request that names an existing recipe as \<^verbatim>\<open>parentRecipe\<close> and
  carries no modifications text (the key is missing or the text is empty): whenever
  POST /api/recipes answers 200, it has inserted exactly the recipe it answers with, and that
  recipe has \<^verbatim>\<open>isForked\<close> true, \<^verbatim>\<open>parentRecipe\<close> set and
  \<^verbatim>\<open>modifications\<close> unset; and it does answer 200 when the payload passes the
  request validation, its ingredients and instructions pass the validators of the schema, and
  the \<^verbatim>\<open>_id\<close> is fresh. Whereas whenever POST /api/recipes/:id/fork on the same parent
  with the same text answers 200, the recipe it has inserted carries the placeholder
  \<^verbatim>\<open>Forked recipe\<close>; and it does answer 200 when the parent passes the validators and
  the \<^verbatim>\<open>_id\<close> is fresh.
\<close>

theorem recipes_post_fork_without_modifications:
  assumes "body_parentRecipe b = Some p" and "recipes d p = Some originalRecipe"
    and "\<not> truthy_string (body_modifications b)"
  shows "(fst (fst (recipes_post newId uid b d)) = 200 \<longrightarrow>
           (\<exists>new. recipes_post newId uid b d
                  = ((200, RecipeDoc newId new),
                     d\<lparr>recipes := (recipes d)(newId \<mapsto> new),
                       journal := journal d @ [RecipeInsert newId]\<rparr>)
              \<and> isForked new \<and> parentRecipe new = Some p \<and> modifications new = None))
       \<and> (validate_recipe b = [] \<and> body_ingredients b = Some ing \<and> body_instructions b = Some ins
            \<and> list_all valid_ingredient ing \<and> list_all valid_instruction ins
            \<and> recipes d newId = None \<longrightarrow>
           fst (fst (recipes_post newId uid b d)) = 200)
       \<and> (fst (fst (recipes_fork newId p uid (body_modifications b) d)) = 200 \<longrightarrow>
           (\<exists>new. recipes_fork newId p uid (body_modifications b) d
                  = ((200, RecipeDoc newId new),
                     d\<lparr>recipes := (recipes d)(newId \<mapsto> new),
                       journal := journal d @ [RecipeInsert newId]\<rparr>)
              \<and> isForked new \<and> parentRecipe new = Some p
              \<and> modifications new = Some ''Forked recipe''))
       \<and> (valid_recipe originalRecipe \<and> recipes d newId = None \<longrightarrow>
           fst (fst (recipes_fork newId p uid (body_modifications b) d)) = 200)"
proof (intro conjI impI)
  assume ok: "fst (fst (recipes_post newId uid b d)) = 200"
  then show "\<exists>new. recipes_post newId uid b d
                  = ((200, RecipeDoc newId new),
                     d\<lparr>recipes := (recipes d)(newId \<mapsto> new),
                       journal := journal d @ [RecipeInsert newId]\<rparr>)
              \<and> isForked new \<and> parentRecipe new = Some p \<and> modifications new = None"
    using assms
    by (auto simp: recipes_post_def save_new_recipe_def Recipe_insert_def Let_def
          server_error_def split: if_splits option.splits)
next
  assume a: "validate_recipe b = [] \<and> body_ingredients b = Some ing \<and> body_instructions b = Some ins
            \<and> list_all valid_ingredient ing \<and> list_all valid_instruction ins
            \<and> recipes d newId = None"
  then obtain t de ct sv where
    f: "body_title b = Some t" "t \<noteq> []" "body_description b = Some de" "de \<noteq> []"
       "body_cookingTime b = Some ct" "body_servings b = Some sv"
    by (auto simp: validate_recipe_def check_notEmpty_def check_isArray_min1_def
          check_isNumeric_def truthy_string_def split: option.splits list.splits if_splits)
  have v: "valid_recipe
             (recipeFields_base uid t de ing ins ct sv b
                \<lparr>parentRecipe := Some p, isForked := True, modifications := None\<rparr>)"
    using a f by (simp add: valid_recipe_def recipeFields_base_def)
  show "fst (fst (recipes_post newId uid b d)) = 200"
    using assms a f v
    by (simp add: recipes_post_def save_new_recipe_def Recipe_insert_def Let_def)
next
  assume ok: "fst (fst (recipes_fork newId p uid (body_modifications b) d)) = 200"
  then show "\<exists>new. recipes_fork newId p uid (body_modifications b) d
                  = ((200, RecipeDoc newId new),
                     d\<lparr>recipes := (recipes d)(newId \<mapsto> new),
                       journal := journal d @ [RecipeInsert newId]\<rparr>)
              \<and> isForked new \<and> parentRecipe new = Some p
              \<and> modifications new = Some ''Forked recipe''"
    using assms
    by (auto simp: recipes_fork_def save_new_recipe_def Recipe_insert_def server_error_def
          split: if_splits option.splits)
next
  assume "valid_recipe originalRecipe \<and> recipes d newId = None"
  then show "fst (fst (recipes_fork newId p uid (body_modifications b) d)) = 200"
    using assms
    by (simp add: recipes_fork_def save_new_recipe_def Recipe_insert_def valid_recipe_def)
qed

text \<open>On the small store: Bo posts a recipe that names Ann's soup as its parent.\<close>

theorem recipes_post_fork_without_modifications_witness:
  "body_parentRecipe child_body = Some (ObjectId 10)
   \<and> recipes db0 (ObjectId 10) = Some soup \<and> \<not> truthy_string (body_modifications child_body)
   \<and> validate_recipe child_body = [] \<and> valid_recipe soup \<and> recipes db0 (ObjectId 12) = None
   \<and> fst (fst (recipes_post (ObjectId 12) (ObjectId 2) child_body db0)) = 200
   \<and> map_option modifications
       (recipes (snd (recipes_post (ObjectId 12) (ObjectId 2) child_body db0)) (ObjectId 12))
       = Some None
   \<and> map_option isForked
       (recipes (snd (recipes_post (ObjectId 12) (ObjectId 2) child_body db0)) (ObjectId 12))
       = Some True
   \<and> map_option parentRecipe
       (recipes (snd (recipes_post (ObjectId 12) (ObjectId 2) child_body db0)) (ObjectId 12))
       = Some (Some (ObjectId 10))
   \<and> fst (fst (recipes_fork (ObjectId 12) (ObjectId 10) (ObjectId 2)
                  (body_modifications child_body) db0)) = 200
   \<and> map_option modifications
       (recipes (snd (recipes_fork (ObjectId 12) (ObjectId 10) (ObjectId 2)
                        (body_modifications child_body) db0)) (ObjectId 12))
       = Some (Some ''Forked recipe'')"
proof -
  let ?p = "recipes_post (ObjectId 12) (ObjectId 2) child_body db0"
  let ?f = "recipes_fork (ObjectId 12) (ObjectId 10) (ObjectId 2) (body_modifications child_body) db0"
  have v: "validate_recipe child_body = []"
    by (simp add: validate_recipe_def check_notEmpty_def check_isArray_min1_def
          check_isNumeric_def truthy_string_def child_body_def)
  have pr: "body_parentRecipe child_body = Some (ObjectId 10)" by (simp add: child_body_def)
  have m: "\<not> truthy_string (body_modifications child_body)"
    by (simp add: truthy_string_def child_body_def)
  have i: "body_ingredients child_body
             = Some [\<lparr>ing_name = ''water'', ing_quantity = ''2'', ing_unit = None\<rparr>]"
    "body_instructions child_body = Some [\<lparr>ins_step = 1, ins_text = ''Boil''\<rparr>]"
    by (simp_all add: child_body_def)
  have w: "list_all valid_ingredient [\<lparr>ing_name = ''water'', ing_quantity = ''2'', ing_unit = None\<rparr>]"
    "list_all valid_instruction [\<lparr>ins_step = 1, ins_text = ''Boil''\<rparr>]"
    by (simp_all add: valid_ingredient_def valid_instruction_def)
  note t = recipes_post_fork_without_modifications
             [OF pr db0_recipes(1) m,
              of "ObjectId 12" "ObjectId 2"
                 "[\<lparr>ing_name = ''water'', ing_quantity = ''2'', ing_unit = None\<rparr>]"
                 "[\<lparr>ins_step = 1, ins_text = ''Boil''\<rparr>]"]
  from t v i w db0_recipes(3) have p200: "fst (fst ?p) = 200" by blast
  from t valid_soup db0_recipes(3) have f200: "fst (fst ?f) = 200" by blast
  from t p200 obtain new where
    n: "?p = ((200, RecipeDoc (ObjectId 12) new),
              db0\<lparr>recipes := (recipes db0)(ObjectId 12 \<mapsto> new),
                  journal := journal db0 @ [RecipeInsert (ObjectId 12)]\<rparr>)"
    and nf: "isForked new" "parentRecipe new = Some (ObjectId 10)" "modifications new = None"
    by blast
  from t f200 obtain forked where
    k: "?f = ((200, RecipeDoc (ObjectId 12) forked),
              db0\<lparr>recipes := (recipes db0)(ObjectId 12 \<mapsto> forked),
                  journal := journal db0 @ [RecipeInsert (ObjectId 12)]\<rparr>)"
    and kf: "modifications forked = Some ''Forked recipe''"
    by blast
  from n have 1: "recipes (snd ?p) (ObjectId 12) = Some new" by simp
  from k have 2: "recipes (snd ?f) (ObjectId 12) = Some forked" by simp
  from 1 2 nf kf v pr m p200 f200 show ?thesis by (simp add: db0_recipes valid_soup)
qed

section \<open>The likes invariant\<close>

lemma likes_unique_Nil: "likes_unique []"
  by (simp add: likes_unique_def)

lemma likes_unique_Cons:
  "\<not> liked_by uid ls \<Longrightarrow> likes_unique ls \<Longrightarrow> likes_unique (\<lparr>like_user = uid\<rparr> # ls)"
  by (simp add: likes_unique_def liked_by_iff)

lemma likes_unique_filter: "likes_unique ls \<Longrightarrow> likes_unique (filter P ls)"
  by (simp add: likes_unique_def distinct_map_filter)

lemma save_new_recipe_likes:
  "likes_unique (recipe_likes r) \<Longrightarrow> recipe_likes_unique d k
     \<Longrightarrow> recipe_likes_unique (snd (save_new_recipe newId r d)) k"
  by (auto simp: save_new_recipe_def Recipe_insert_def recipe_likes_unique_def split: option.splits)

lemma save_new_recipe_comments:
  "comments (snd (save_new_recipe newId r d)) = comments d"
  by (auto simp: save_new_recipe_def Recipe_insert_def split: option.splits)

lemma recipeFields_base_likes: "recipe_likes (recipeFields_base uid t de ing ins ct sv b) = []"
  by (simp add: recipeFields_base_def)

lemma recipes_post_recipe_likes:
  "recipe_likes_unique d k \<Longrightarrow> recipe_likes_unique (snd (recipes_post newId uid b d)) k"
  by (auto simp: recipes_post_def Let_def recipeFields_base_likes likes_unique_Nil
           intro!: save_new_recipe_likes split: option.splits)

lemma recipes_post_comments: "comments (snd (recipes_post newId uid b d)) = comments d"
  by (auto simp: recipes_post_def Let_def save_new_recipe_comments split: option.splits)

lemma recipes_put_recipe_likes:
  "recipe_likes_unique d k \<Longrightarrow> recipe_likes_unique (snd (recipes_put rid uid b d)) k"
  by (auto simp: recipes_put_def set_recipeFields_def Recipe_save_def recipe_likes_unique_def
           split: option.splits)

lemma recipes_put_comments: "comments (snd (recipes_put rid uid b d)) = comments d"
  by (auto simp: recipes_put_def Recipe_save_def split: option.splits)

lemma recipes_delete_recipe_likes:
  "recipe_likes_unique d k \<Longrightarrow> recipe_likes_unique (snd (recipes_delete rid uid d)) k"
  by (auto simp: recipes_delete_def Recipe_deleteOne_def Comment_deleteMany_def
        recipe_likes_unique_def split: option.splits)

lemma recipes_delete_comment_likes:
  "comment_likes_unique d k \<Longrightarrow> comment_likes_unique (snd (recipes_delete rid uid d)) k"
  by (auto simp: recipes_delete_def Recipe_deleteOne_def Comment_deleteMany_def
        comment_likes_unique_def split: option.splits)

lemma recipes_fork_recipe_likes:
  "recipe_likes_unique d k \<Longrightarrow> recipe_likes_unique (snd (recipes_fork newId rid uid mods d)) k"
  by (auto simp: recipes_fork_def likes_unique_Nil intro!: save_new_recipe_likes split: option.splits)

lemma recipes_fork_comments: "comments (snd (recipes_fork newId rid uid mods d)) = comments d"
  by (auto simp: recipes_fork_def save_new_recipe_comments split: option.splits)

lemma recipes_image_recipe_likes:
  "recipe_likes_unique d k \<Longrightarrow> recipe_likes_unique (snd (recipes_image rid uid file d)) k"
  by (auto simp: recipes_image_def Recipe_save_validated_def Recipe_save_def recipe_likes_unique_def Let_def
           split: option.splits if_splits)

lemma recipes_image_comments: "comments (snd (recipes_image rid uid file d)) = comments d"
  by (auto simp: recipes_image_def Recipe_save_validated_def Recipe_save_def Let_def split: option.splits if_splits)

lemma recipes_like_recipe_likes:
  "recipe_likes_unique d k \<Longrightarrow> recipe_likes_unique (snd (recipes_like rid uid d)) k"
  by (auto simp: recipes_like_def Recipe_save_validated_def Recipe_save_def recipe_likes_unique_def Let_def
        likes_unique_Cons split: option.splits if_splits)

lemma recipes_like_comments: "comments (snd (recipes_like rid uid d)) = comments d"
  by (auto simp: recipes_like_def Recipe_save_validated_def Recipe_save_def Let_def split: option.splits if_splits)

lemma recipes_unlike_recipe_likes:
  "recipe_likes_unique d k \<Longrightarrow> recipe_likes_unique (snd (recipes_unlike rid uid d)) k"
  by (auto simp: recipes_unlike_def Recipe_save_validated_def Recipe_save_def recipe_likes_unique_def Let_def
        likes_unique_filter split: option.splits if_splits)

lemma recipes_unlike_comments: "comments (snd (recipes_unlike rid uid d)) = comments d"
  by (auto simp: recipes_unlike_def Recipe_save_validated_def Recipe_save_def Let_def split: option.splits if_splits)

lemma comments_post_recipes: "recipes (snd (comments_post newId rid uid txt d)) = recipes d"
  by (auto simp: comments_post_def Comment_insert_def Let_def split: option.splits)

lemma comments_post_comment_likes:
  "comment_likes_unique d k \<Longrightarrow> comment_likes_unique (snd (comments_post newId rid uid txt d)) k"
  by (auto simp: comments_post_def Comment_insert_def Let_def comment_likes_unique_def
        likes_unique_Nil split: option.splits)

lemma comments_put_recipes: "recipes (snd (comments_put rid cid uid txt d)) = recipes d"
  by (auto simp: comments_put_def Comment_save_def split: option.splits)

lemma comments_put_comment_likes:
  "comment_likes_unique d k \<Longrightarrow> comment_likes_unique (snd (comments_put rid cid uid txt d)) k"
  by (auto simp: comments_put_def Comment_save_def comment_likes_unique_def split: option.splits)

lemma comments_delete_recipes: "recipes (snd (comments_delete rid cid uid d)) = recipes d"
  by (auto simp: comments_delete_def Comment_deleteOne_def split: option.splits)

lemma comments_delete_comment_likes:
  "comment_likes_unique d k \<Longrightarrow> comment_likes_unique (snd (comments_delete rid cid uid d)) k"
  by (auto simp: comments_delete_def Comment_deleteOne_def comment_likes_unique_def
           split: option.splits)

lemma comments_like_recipes: "recipes (snd (comments_like rid cid uid d)) = recipes d"
  by (auto simp: comments_like_def Comment_save_def Let_def split: option.splits)

lemma comments_like_comment_likes:
  "comment_likes_unique d k \<Longrightarrow> comment_likes_unique (snd (comments_like rid cid uid d)) k"
  by (auto simp: comments_like_def Comment_save_def comment_likes_unique_def Let_def
        likes_unique_Cons split: option.splits)

lemma comments_unlike_recipes: "recipes (snd (comments_unlike rid cid uid d)) = recipes d"
  by (auto simp: comments_unlike_def Comment_save_def Let_def split: option.splits)

lemma comments_unlike_comment_likes:
  "comment_likes_unique d k \<Longrightarrow> comment_likes_unique (snd (comments_unlike rid cid uid d)) k"
  by (auto simp: comments_unlike_def Comment_save_def comment_likes_unique_def Let_def
        likes_unique_filter split: option.splits)

lemma folders_routes_recipes:
  "recipes (snd (folders_post newId uid b d)) = recipes d"
  "recipes (snd (folders_put fid uid b d)) = recipes d"
  "recipes (snd (folders_delete fid uid d)) = recipes d"
  "recipes (snd (folders_add_recipe fid rid uid d)) = recipes d"
  "recipes (snd (folders_remove_recipe fid rid uid d)) = recipes d"
  by (auto simp: folders_post_def folders_put_def folders_delete_def folders_add_recipe_def
        folders_remove_recipe_def Folder_insert_def Folder_save_def Folder_deleteOne_def Let_def
        split: option.splits)

lemma folders_routes_comments:
  "comments (snd (folders_post newId uid b d)) = comments d"
  "comments (snd (folders_put fid uid b d)) = comments d"
  "comments (snd (folders_delete fid uid d)) = comments d"
  "comments (snd (folders_add_recipe fid rid uid d)) = comments d"
  "comments (snd (folders_remove_recipe fid rid uid d)) = comments d"
  by (auto simp: folders_post_def folders_put_def folders_delete_def folders_add_recipe_def
        folders_remove_recipe_def Folder_insert_def Folder_save_def Folder_deleteOne_def Let_def
        split: option.splits)

lemma recipe_likes_unique_cong:
  "recipes d' = recipes d \<Longrightarrow> recipe_likes_unique d' k = recipe_likes_unique d k"
  by (simp add: recipe_likes_unique_def)

lemma comment_likes_unique_cong:
  "comments d' = comments d \<Longrightarrow> comment_likes_unique d' k = comment_likes_unique d k"
  by (simp add: comment_likes_unique_def)

lemma handle_recipe_likes:
  "recipe_likes_unique d k \<Longrightarrow> recipe_likes_unique (snd (handle newId req d)) k"
  by (cases req)
     (simp_all add: recipes_post_recipe_likes recipes_put_recipe_likes recipes_delete_recipe_likes
        recipes_fork_recipe_likes recipes_image_recipe_likes recipes_like_recipe_likes
        recipes_unlike_recipe_likes
        recipe_likes_unique_cong [OF comments_post_recipes]
        recipe_likes_unique_cong [OF comments_put_recipes]
        recipe_likes_unique_cong [OF comments_delete_recipes]
        recipe_likes_unique_cong [OF comments_like_recipes]
        recipe_likes_unique_cong [OF comments_unlike_recipes]
        recipe_likes_unique_cong [OF folders_routes_recipes(1)]
        recipe_likes_unique_cong [OF folders_routes_recipes(2)]
        recipe_likes_unique_cong [OF folders_routes_recipes(3)]
        recipe_likes_unique_cong [OF folders_routes_recipes(4)]
        recipe_likes_unique_cong [OF folders_routes_recipes(5)])

lemma handle_comment_likes:
  "comment_likes_unique d k \<Longrightarrow> comment_likes_unique (snd (handle newId req d)) k"
  by (cases req)
     (simp_all add: comments_post_comment_likes comments_put_comment_likes
        comments_delete_comment_likes comments_like_comment_likes comments_unlike_comment_likes
        recipes_delete_comment_likes
        comment_likes_unique_cong [OF recipes_post_comments]
        comment_likes_unique_cong [OF recipes_put_comments]
        comment_likes_unique_cong [OF recipes_fork_comments]
        comment_likes_unique_cong [OF recipes_image_comments]
        comment_likes_unique_cong [OF recipes_like_comments]
        comment_likes_unique_cong [OF recipes_unlike_comments]
        comment_likes_unique_cong [OF folders_routes_comments(1)]
        comment_likes_unique_cong [OF folders_routes_comments(2)]
        comment_likes_unique_cong [OF folders_routes_comments(3)]
        comment_likes_unique_cong [OF folders_routes_comments(4)]
        comment_likes_unique_cong [OF folders_routes_comments(5)])

lemma run_recipe_likes:
  "recipe_likes_unique d k \<Longrightarrow> recipe_likes_unique (run reqs d) k"
proof (induction reqs arbitrary: d)
  case Nil
  then show ?case by simp
next
  case (Cons a reqs)
  obtain newId req where a: "a = (newId, req)" by (cases a)
  from Cons.prems have "recipe_likes_unique (snd (handle newId req d)) k"
    by (rule handle_recipe_likes)
  then have "recipe_likes_unique (run reqs (snd (handle newId req d))) k"
    by (rule Cons.IH)
  with a show ?case by simp
qed

lemma run_comment_likes:
  "comment_likes_unique d k \<Longrightarrow> comment_likes_unique (run reqs d) k"
proof (induction reqs arbitrary: d)
  case Nil
  then show ?case by simp
next
  case (Cons a reqs)
  obtain newId req where a: "a = (newId, req)" by (cases a)
  from Cons.prems have "comment_likes_unique (snd (handle newId req d)) k"
    by (rule handle_comment_likes)
  then have "comment_likes_unique (run reqs (snd (handle newId req d))) k"
    by (rule Cons.IH)
  with a show ?case by simp
qed

text \<open>
  C9. Whatever request the routers handle, like and unlike of a recipe or of a comment among
  them, run to its end on whatever store: a recipe whose likes list names no user twice before
  the request has, if it is still there, a likes list that names no user twice after it, and
  the same holds for every comment. Recipes and comments that the request creates start with
  no likes. So the same holds across any sequence of requests run one after the other, and in
  every store that such a sequence builds from the empty store no likes list names a user
  twice.
\<close>

theorem likes_unique_preserved:
  "(recipe_likes_unique d rid \<longrightarrow> recipe_likes_unique (snd (handle newId req d)) rid)
 \<and> (comment_likes_unique d cid \<longrightarrow> comment_likes_unique (snd (handle newId req d)) cid)
 \<and> (recipe_likes_unique d rid \<longrightarrow> recipe_likes_unique (run reqs d) rid)
 \<and> (comment_likes_unique d cid \<longrightarrow> comment_likes_unique (run reqs d) cid)
 \<and> recipe_likes_unique (run reqs empty_db) rid
 \<and> comment_likes_unique (run reqs empty_db) cid"
proof -
  have "recipe_likes_unique empty_db rid"
    by (simp add: recipe_likes_unique_def empty_db_def)
  then have 1: "recipe_likes_unique (run reqs empty_db) rid"
    by (rule run_recipe_likes)
  have "comment_likes_unique empty_db cid"
    by (simp add: comment_likes_unique_def empty_db_def)
  then have 2: "comment_likes_unique (run reqs empty_db) cid"
    by (rule run_comment_likes)
  from 1 2 show ?thesis
    by (simp add: handle_recipe_likes handle_comment_likes run_recipe_likes run_comment_likes)
qed

text \<open>On the small store: Ann likes the soup; Ann takes back her like of Bo's comment.\<close>

theorem likes_unique_preserved_witness:
  "recipe_likes_unique db0 (ObjectId 10) \<and> comment_likes_unique db0 (ObjectId 20)
   \<and> recipe_likes_unique
       (snd (handle (ObjectId 12) (LikeRecipe (ObjectId 10) (ObjectId 1)) db0)) (ObjectId 10)
   \<and> comment_likes_unique
       (snd (handle (ObjectId 12) (UnlikeComment (ObjectId 10) (ObjectId 20) (ObjectId 1)) db0))
       (ObjectId 20)
   \<and> recipe_likes_unique
       (run [(ObjectId 12, LikeRecipe (ObjectId 10) (ObjectId 1)),
             (ObjectId 12, LikeRecipe (ObjectId 10) (ObjectId 3))] db0) (ObjectId 10)
   \<and> comment_likes_unique
       (run [(ObjectId 12, LikeComment (ObjectId 10) (ObjectId 20) (ObjectId 2)),
             (ObjectId 12, UnlikeComment (ObjectId 10) (ObjectId 20) (ObjectId 1))] db0) (ObjectId 20)"
proof -
  have r: "recipe_likes_unique db0 (ObjectId 10)"
    by (simp add: recipe_likes_unique_def likes_unique_def db0_recipes soup_def)
  have c: "comment_likes_unique db0 (ObjectId 20)"
    by (simp add: comment_likes_unique_def likes_unique_def db0_comments praise_def)
  from likes_unique_preserved
         [where d = db0 and rid = "ObjectId 10" and newId = "ObjectId 12"
            and req = "LikeRecipe (ObjectId 10) (ObjectId 1)" and cid = "ObjectId 20"
            and reqs = "[(ObjectId 12, LikeRecipe (ObjectId 10) (ObjectId 1)),
                         (ObjectId 12, LikeRecipe (ObjectId 10) (ObjectId 3))]"] r
  have 1: "recipe_likes_unique
             (snd (handle (ObjectId 12) (LikeRecipe (ObjectId 10) (ObjectId 1)) db0)) (ObjectId 10)"
    and 3: "recipe_likes_unique
       (run [(ObjectId 12, LikeRecipe (ObjectId 10) (ObjectId 1)),
             (ObjectId 12, LikeRecipe (ObjectId 10) (ObjectId 3))] db0) (ObjectId 10)"
    by blast+
  from likes_unique_preserved
         [where d = db0 and rid = "ObjectId 10" and newId = "ObjectId 12"
            and req = "UnlikeComment (ObjectId 10) (ObjectId 20) (ObjectId 1)" and cid = "ObjectId 20"
            and reqs = "[(ObjectId 12, LikeComment (ObjectId 10) (ObjectId 20) (ObjectId 2)),
                         (ObjectId 12, UnlikeComment (ObjectId 10) (ObjectId 20) (ObjectId 1))]"] c
  have 2: "comment_likes_unique
             (snd (handle (ObjectId 12) (UnlikeComment (ObjectId 10) (ObjectId 20) (ObjectId 1)) db0))
             (ObjectId 20)"
    and 4: "comment_likes_unique
       (run [(ObjectId 12, LikeComment (ObjectId 10) (ObjectId 20) (ObjectId 2)),
             (ObjectId 12, UnlikeComment (ObjectId 10) (ObjectId 20) (ObjectId 1))] db0) (ObjectId 20)"
    by blast+
  from r c 1 2 3 4 show ?thesis by simp
qed

end
